theory Spec2Isabelle
  imports Main "HOL-Library.Word"
begin

section \<open>JavaScript values\<close>

text \<open>
  A JavaScript string is a sequence of UTF-16 code units.  String literals of the source
  are ASCII and are written \<open>lit ''...''\<close>.
\<close>

type_synonym jstring = "16 word list"

definition lit :: "string \<Rightarrow> jstring" where
  "lit s = map of_char s"

text \<open>
  The runtime values a field of \<open>data\<close> can hold.  The source itself does not trust the
  declared type of \<open>data.name\<close> (it tests \<open>typeof data.name !== 'string'\<close>), so fields that
  the source inspects are modelled as arbitrary values.  Numbers are restricted to
  integers; objects are opaque references.
\<close>

datatype jsval =
    JUndefined
  | JNull
  | JBool bool
  | JNum int
  | JStr jstring
  | JObject nat

text \<open>\<open>!v\<close> is \<open>\<not> truthy v\<close>.\<close>

fun truthy :: "jsval \<Rightarrow> bool" where
  "truthy JUndefined = False"
| "truthy JNull = False"
| "truthy (JBool b) = b"
| "truthy (JNum n) = (n \<noteq> 0)"
| "truthy (JStr s) = (s \<noteq> [])"
| "truthy (JObject r) = True"

fun typeof :: "jsval \<Rightarrow> string" where
  "typeof JUndefined = ''undefined''"
| "typeof JNull = ''object''"
| "typeof (JBool b) = ''boolean''"
| "typeof (JNum n) = ''number''"
| "typeof (JStr s) = ''string''"
| "typeof (JObject r) = ''object''"

text \<open>\<open>a || b\<close> on two strings: the empty string is the only falsy string.\<close>

definition js_or :: "jstring \<Rightarrow> jstring \<Rightarrow> jstring" where
  "js_or a b = (if truthy (JStr a) then a else b)"

text \<open>
  \<open>String.prototype.trim\<close> removes leading and trailing code units that are WhiteSpace
  or LineTerminator in ECMAScript: TAB, LF, VT, FF, CR, SP, NBSP, U+1680, U+2000..U+200A,
  U+2028, U+2029, U+202F, U+205F, U+3000 and U+FEFF.
\<close>

definition isWhiteSpace :: "16 word \<Rightarrow> bool" where
  "isWhiteSpace c =
     (c = 0x9 \<or> c = 0xA \<or> c = 0xB \<or> c = 0xC \<or> c = 0xD \<or> c = 0x20 \<or> c = 0xA0
      \<or> c = 0x1680 \<or> (0x2000 \<le> c \<and> c \<le> 0x200A) \<or> c = 0x2028 \<or> c = 0x2029
      \<or> c = 0x202F \<or> c = 0x205F \<or> c = 0x3000 \<or> c = 0xFEFF)"

definition trim :: "jstring \<Rightarrow> jstring" where
  "trim s = rev (dropWhile isWhiteSpace (rev (dropWhile isWhiteSpace s)))"

text \<open>An \<open>Error\<close> instance with its \<open>message\<close>; a thrown value is an \<open>Error\<close> or anything else.\<close>

datatype js_error = Error (message: jstring)

datatype js_thrown =
    Thrown_Error js_error
  | Thrown_Other jsval

text \<open>
  The method call \<open>v.trim()\<close>: on a string it trims, on any other value it throws a
  \<open>TypeError\<close>.
\<close>

fun method_trim :: "jsval \<Rightarrow> js_thrown + jstring" where
  "method_trim (JStr s) = Inr (trim s)"
| "method_trim v = Inl (Thrown_Error (Error (lit ''trim is not a function'')))"


section \<open>Data model\<close>

text \<open>
  \<open>InterfaceTableCheckIn\<close> is declared in \<open>./types\<close>; the fields below are the ones
  \<open>TableRow\<close> reads.  \<open>checkIn\<close> is compared with \<open>null\<close> only, \<open>name\<close> is validated at
  run time, \<open>userId\<close> and \<open>eventId\<close> are passed on unchanged.
\<close>

record InterfaceTableCheckIn =
  userId :: jstring
  eventId :: jstring
  name :: jsval
  checkIn :: jsval

datatype field_kind = Text

datatype alignment_kind = Center | Left | Right

text \<open>\<open>InterfaceSchemaInput\<close> (lines 14-24); the three optional members are options.\<close>

record InterfaceSchemaInput =
  field_name :: jstring
  field_type :: field_kind
  content :: jstring
  position :: "int \<times> int"
  width :: int
  height :: int
  alignment :: "alignment_kind option"
  fontSize :: "int option"
  dynamicFontSize :: "bool option"

text \<open>\<open>new Blob(parts, {type})\<close>.\<close>

datatype blob = Blob "8 word list list" jstring


section \<open>Effects\<close>

text \<open>
  Everything the component does to the outside is an event, appended to the world's
  event list in the order in which it happens: the three kinds of toast, the mutation
  request with its variables, the call of \<open>refetch\<close>, the call of \<open>generate\<close> with its
  inputs, an object URL handed out by \<open>URL.createObjectURL\<close>, and the call of
  \<open>window.open\<close>.
\<close>

datatype event =
    ToastPending jstring
  | ToastSuccess jstring
  | ToastError jstring
  | MutationCall jstring jstring
  | Refetch
  | GenerateCall "InterfaceSchemaInput list"
  | ObjectURLCreated blob jstring
  | WindowOpen jstring

record world =
  data :: InterfaceTableCheckIn
  events :: "event list"

text \<open>
  The external collaborators.  \<open>t\<close> is the translation function.  \<open>checkInMutation\<close>
  resolves or rejects with an error that has a message.  \<open>generate\<close> (with the static
  \<open>tagTemplate\<close> already supplied) resolves with the bytes of the document or throws any
  value; \<open>createObjectURL\<close> and \<open>window_open\<close> return or throw.  The toast functions and
  \<open>refetch\<close> return normally.
\<close>

record env =
  t :: "string \<Rightarrow> jstring"
  checkInMutation :: "jstring \<Rightarrow> jstring \<Rightarrow> js_error + unit"
  generate :: "InterfaceSchemaInput list \<Rightarrow> js_thrown + 8 word list"
  createObjectURL :: "blob \<Rightarrow> js_thrown + jstring"
  window_open :: "jstring \<Rightarrow> js_thrown + unit"

text \<open>
  A computation takes the world and returns the new world with either the thrown value
  (\<open>Inl\<close>: the exception, or the rejection of the promise) or the result (\<open>Inr\<close>).
\<close>

type_synonym ('e, 'a) comp = "world \<Rightarrow> world \<times> ('e + 'a)"

definition pure_c :: "'a \<Rightarrow> ('e, 'a) comp" where
  "pure_c x = (\<lambda>w. (w, Inr x))"

definition throw_c :: "'e \<Rightarrow> ('e, 'a) comp" where
  "throw_c e = (\<lambda>w. (w, Inl e))"

definition emit :: "event \<Rightarrow> ('e, unit) comp" where
  "emit ev = (\<lambda>w. (w\<lparr>events := events w @ [ev]\<rparr>, Inr ()))"

text \<open>
  Sequencing: statement after statement, \<open>await\<close>, and \<open>p.then(f)\<close>.  A throw or rejection
  skips the continuation.
\<close>

definition seq :: "('e, 'a) comp \<Rightarrow> ('a \<Rightarrow> ('e, 'b) comp) \<Rightarrow> ('e, 'b) comp" where
  "seq m f = (\<lambda>w. case m w of
                     (w', Inl e) \<Rightarrow> (w', Inl e)
                   | (w', Inr x) \<Rightarrow> f x w')"

text \<open>\<open>try { m } catch (e) { h e }\<close>, and \<open>p.catch(h)\<close>.\<close>

definition catch_c :: "('e, 'a) comp \<Rightarrow> ('e \<Rightarrow> ('e, 'a) comp) \<Rightarrow> ('e, 'a) comp" where
  "catch_c m h = (\<lambda>w. case m w of
                         (w', Inl e) \<Rightarrow> h e w'
                       | (w', Inr x) \<Rightarrow> (w', Inr x))"

text \<open>The outcome of an external call, lifted into a computation.\<close>

definition outcome :: "'e + 'a \<Rightarrow> ('e, 'a) comp" where
  "outcome r = (\<lambda>w. (w, r))"

text \<open>Modelled from the spec: \<open>toast.promise\<close> of the notification library, which is
  not part of the source.  It is the three-phase wrapper of the Notification Sink: the
  pending message is shown, the operation is started, and when it settles the success
  message is shown if it resolved and the error message if it rejected.  The wrapper
  returns the operation's own promise.\<close>

definition toast_promise ::
  "('e, 'a) comp \<Rightarrow> jstring \<Rightarrow> jstring \<Rightarrow> jstring \<Rightarrow> ('e, 'a) comp" where
  "toast_promise f pending success error =
     seq (emit (ToastPending pending)) (\<lambda>_.
       (\<lambda>w. case f w of
               (w', Inr v) \<Rightarrow> (w'\<lparr>events := events w' @ [ToastSuccess success]\<rparr>, Inr v)
             | (w', Inl e) \<Rightarrow> (w'\<lparr>events := events w' @ [ToastError error]\<rparr>, Inl e)))"


section \<open>The row controller\<close>

subsection \<open>markCheckIn (lines 49-64)\<close>

text \<open>
  \<open>checkInMutation({variables}).then(...).catch(...)\<close>.  The result is the settlement of
  the promise at the end of the chain.
\<close>

definition call_checkInMutation :: "env \<Rightarrow> (js_error, unit) comp" where
  "call_checkInMutation e =
     (\<lambda>w. seq (emit (MutationCall (userId (data w)) (eventId (data w))))
             (\<lambda>_. outcome (checkInMutation e (userId (data w)) (eventId (data w)))) w)"

definition markCheckIn :: "env \<Rightarrow> (js_error, unit) comp" where
  "markCheckIn e =
     catch_c
       (seq (call_checkInMutation e) (\<lambda>_.
          seq (emit (ToastSuccess (t e ''checkedInSuccessfully''))) (\<lambda>_.
            emit Refetch)))
       (\<lambda>err.
          seq (emit (ToastError (t e ''errorCheckingIn''))) (\<lambda>_.
            emit (ToastError (message err))))"

subsection \<open>generateTag (lines 83-114)\<close>

definition invalidName :: "env \<Rightarrow> js_thrown" where
  "invalidName e =
     Thrown_Error (Error (js_or (t e ''invalidName'') (lit ''Invalid or empty name provided'')))"

text \<open>
  Line 88: \<open>!data.name || typeof data.name !== 'string' || !data.name.trim()\<close>, evaluated
  from left to right; the first true operand decides.
\<close>

definition validate :: "env \<Rightarrow> jsval \<Rightarrow> (js_thrown, unit) comp" where
  "validate e n =
     (if \<not> truthy n then throw_c (invalidName e)
      else if typeof n \<noteq> ''string'' then throw_c (invalidName e)
      else seq (outcome (method_trim n)) (\<lambda>s.
             if \<not> truthy (JStr s) then throw_c (invalidName e) else pure_c ()))"

text \<open>Lines 92-102: the object pushed onto \<open>inputs\<close>, from the two results of \<open>trim\<close>.\<close>

definition schemaInput :: "jstring \<Rightarrow> jstring \<Rightarrow> InterfaceSchemaInput" where
  "schemaInput n c =
     \<lparr> field_name = n, field_type = Text, content = c, position = (10, 20),
       width = 200, height = 50, alignment = Some Center, fontSize = Some 12,
       dynamicFontSize = Some True \<rparr>"

definition call_generate :: "env \<Rightarrow> InterfaceSchemaInput list \<Rightarrow> (js_thrown, 8 word list) comp" where
  "call_generate e inputs = seq (emit (GenerateCall inputs)) (\<lambda>_. outcome (generate e inputs))"

definition call_createObjectURL :: "env \<Rightarrow> blob \<Rightarrow> (js_thrown, jstring) comp" where
  "call_createObjectURL e b =
     seq (outcome (createObjectURL e b)) (\<lambda>url.
       seq (emit (ObjectURLCreated b url)) (\<lambda>_. pure_c url))"

definition call_window_open :: "env \<Rightarrow> jstring \<Rightarrow> (js_thrown, unit) comp" where
  "call_window_open e url = seq (emit (WindowOpen url)) (\<lambda>_. outcome (window_open e url))"

text \<open>The body of the \<open>try\<close> block, lines 85-108.\<close>

definition generateTag_try :: "env \<Rightarrow> (js_thrown, unit) comp" where
  "generateTag_try e =
     (\<lambda>w. (let inputs0 = [] in
        seq (validate e (name (data w))) (\<lambda>_.
        seq (outcome (method_trim (name (data w)))) (\<lambda>n.
        seq (outcome (method_trim (name (data w)))) (\<lambda>c.
        let inputs = inputs0 @ [schemaInput n c] in
        seq (call_generate e inputs) (\<lambda>pdf.
        let b = Blob [pdf] (lit ''application/pdf'') in
        seq (call_createObjectURL e b) (\<lambda>url.
        call_window_open e url)))))) w)"

text \<open>The \<open>catch\<close> block, lines 109-113.\<close>

definition errorMessage :: "js_thrown \<Rightarrow> jstring" where
  "errorMessage error =
     (case error of Thrown_Error er \<Rightarrow> message er | Thrown_Other v \<Rightarrow> lit ''Unknown error'')"

definition generateTag_catch :: "env \<Rightarrow> js_thrown \<Rightarrow> (js_thrown, unit) comp" where
  "generateTag_catch e error =
     emit (ToastError (t e ''pdfGenerationError'' @ lit '': '' @ errorMessage error))"

definition generateTag :: "env \<Rightarrow> (js_thrown, unit) comp" where
  "generateTag e = catch_c (generateTag_try e) (generateTag_catch e)"

subsection \<open>notify (lines 71-76)\<close>

definition notify :: "env \<Rightarrow> (js_thrown, unit) comp" where
  "notify e =
     toast_promise (generateTag e)
       (js_or (t e ''generatingPdf'') (lit ''Generating PDF...''))
       (js_or (t e ''pdfGenerated'') (lit ''PDF generated successfully!''))
       (js_or (t e ''pdfGenerationError'') (lit ''Error generating PDF!''))"

subsection \<open>The rendered row (lines 116-138)\<close>

datatype click_handler = OnMarkCheckIn | OnNotify

record button =
  label :: jstring
  disabled :: bool
  onClick :: "click_handler option"

datatype element = Div "button list" | Single button

definition TableRow :: "env \<Rightarrow> InterfaceTableCheckIn \<Rightarrow> element" where
  "TableRow e d =
     (if checkIn d \<noteq> JNull then
        Div [\<lparr> label = js_or (t e ''checkedIn'') (lit ''Checked In''), disabled = True,
               onClick = None \<rparr>,
             \<lparr> label = js_or (t e ''downloadTag'') (lit ''Download Tag''), disabled = False,
               onClick = Some OnNotify \<rparr>]
      else
        Single \<lparr> label = js_or (t e ''checkIn'') (lit ''Check In''), disabled = False,
                 onClick = Some OnMarkCheckIn \<rparr>)"


section \<open>Observations\<close>

text \<open>The buttons of the rendered row, and the two affordances: an enabled button that
  starts \<open>markCheckIn\<close>, an enabled button that starts \<open>notify\<close>.\<close>

fun buttons :: "element \<Rightarrow> button list" where
  "buttons (Div bs) = bs"
| "buttons (Single b) = [b]"

definition checkIn_affordance :: "element \<Rightarrow> bool" where
  "checkIn_affordance el =
     list_ex (\<lambda>b. onClick b = Some OnMarkCheckIn \<and> \<not> disabled b) (buttons el)"

definition download_affordance :: "element \<Rightarrow> bool" where
  "download_affordance el =
     list_ex (\<lambda>b. onClick b = Some OnNotify \<and> \<not> disabled b) (buttons el)"

text \<open>The events a computation adds to the world it starts in.\<close>

definition emitted :: "('e, 'a) comp \<Rightarrow> world \<Rightarrow> event list" where
  "emitted m w = drop (length (events w)) (events (fst (m w)))"

text \<open>The inputs of the calls of the Document Generator, in order.\<close>

fun generateCalls :: "event list \<Rightarrow> InterfaceSchemaInput list list" where
  "generateCalls [] = []"
| "generateCalls (GenerateCall inputs # evs) = inputs # generateCalls evs"
| "generateCalls (ev # evs) = generateCalls evs"

text \<open>The events of the delivery step: a handle was created, \<open>window.open\<close> was called.\<close>

fun is_delivery :: "event \<Rightarrow> bool" where
  "is_delivery (ObjectURLCreated b url) = True"
| "is_delivery (WindowOpen url) = True"
| "is_delivery ev = False"


section \<open>Concrete collaborators and rows\<close>

text \<open>
  \<open>env_ok\<close>: every collaborator succeeds, and \<open>t\<close> answers with the key itself.  The
  three variants make one collaborator fail with a given value.  \<open>row n c\<close> is a fresh row
  for user \<open>u1\<close> at event \<open>e1\<close> with name \<open>n\<close> and check-in marker \<open>c\<close>.
\<close>

definition env_ok :: env where
  "env_ok = \<lparr> t = lit, checkInMutation = (\<lambda>u ev. Inr ()),
              generate = (\<lambda>inputs. Inr [0x25, 0x50, 0x44, 0x46]),
              createObjectURL = (\<lambda>b. Inr (lit ''blob:tag'')),
              window_open = (\<lambda>url. Inr ()) \<rparr>"

definition env_mutation_fails :: "js_error \<Rightarrow> env" where
  "env_mutation_fails err = env_ok\<lparr>checkInMutation := (\<lambda>u ev. Inl err)\<rparr>"

definition env_generate_fails :: "js_thrown \<Rightarrow> env" where
  "env_generate_fails x = env_ok\<lparr>generate := (\<lambda>inputs. Inl x)\<rparr>"

definition env_window_open_fails :: "js_thrown \<Rightarrow> env" where
  "env_window_open_fails x = env_ok\<lparr>window_open := (\<lambda>url. Inl x)\<rparr>"

definition row :: "jsval \<Rightarrow> jsval \<Rightarrow> world" where
  "row n c = \<lparr> data = \<lparr> userId = lit ''u1'', eventId = lit ''e1'', name = n, checkIn = c \<rparr>,
               events = [] \<rparr>"

definition checked_in :: jsval where
  "checked_in = JStr (lit ''2024-01-01T00:00:00Z'')"


section \<open>Basic facts\<close>

lemmas comp_defs = pure_c_def throw_c_def emit_def seq_def catch_c_def outcome_def

lemmas eval_defs = comp_defs markCheckIn_def call_checkInMutation_def generateTag_def
  generateTag_try_def generateTag_catch_def validate_def invalidName_def schemaInput_def
  call_generate_def call_createObjectURL_def call_window_open_def errorMessage_def notify_def
  toast_promise_def js_or_def trim_def isWhiteSpace_def lit_def env_ok_def
  env_mutation_fails_def env_generate_fails_def env_window_open_fails_def row_def
  checked_in_def TableRow_def checkIn_affordance_def download_affordance_def emitted_def

lemma emitted_append: "events (fst (m w)) = events w @ evs \<Longrightarrow> emitted m w = evs"
  by (simp add: emitted_def)

subsection \<open>Trimming and validation\<close>

lemma trim_empty_iff: "trim s = [] \<longleftrightarrow> (\<forall>c\<in>set s. isWhiteSpace c)"
proof -
  have a: "dropWhile isWhiteSpace s = [] \<longleftrightarrow> (\<forall>c\<in>set s. isWhiteSpace c)"
    by (simp add: dropWhile_eq_Nil_conv)
  have b: "(\<forall>x\<in>set (dropWhile isWhiteSpace s). isWhiteSpace x) \<longleftrightarrow>
           dropWhile isWhiteSpace s = []"
  proof
    assume h: "\<forall>x\<in>set (dropWhile isWhiteSpace s). isWhiteSpace x"
    show "dropWhile isWhiteSpace s = []"
    proof (rule ccontr)
      assume ne: "dropWhile isWhiteSpace s \<noteq> []"
      then have "\<not> isWhiteSpace (hd (dropWhile isWhiteSpace s))" by (rule hd_dropWhile)
      moreover have "hd (dropWhile isWhiteSpace s) \<in> set (dropWhile isWhiteSpace s)"
        using ne by simp
      ultimately show False using h by blast
    qed
  qed (auto dest: set_dropWhileD)
  show ?thesis
    unfolding trim_def using a b by (simp add: dropWhile_eq_Nil_conv)
qed

lemma validate_string:
  "validate e (JStr s) w = (w, if trim s = [] then Inl (invalidName e) else Inr ())"
  by (auto simp: validate_def comp_defs trim_def)

lemma validate_other:
  "\<forall>s. n \<noteq> JStr s \<Longrightarrow> validate e n w = (w, Inl (invalidName e))"
  by (cases n) (auto simp: validate_def comp_defs)

subsection \<open>The try block, case by case\<close>

lemma try_invalid:
  "name (data w) = JStr s \<Longrightarrow> trim s = [] \<Longrightarrow> generateTag_try e w = (w, Inl (invalidName e))"
  by (simp add: generateTag_try_def seq_def validate_string)

lemma try_nonstring:
  "\<forall>s. name (data w) \<noteq> JStr s \<Longrightarrow> generateTag_try e w = (w, Inl (invalidName e))"
  by (simp add: generateTag_try_def seq_def validate_other)

lemma try_valid:
  "name (data w) = JStr s \<Longrightarrow> trim s \<noteq> [] \<Longrightarrow>
   generateTag_try e w =
     (let inputs = [schemaInput (trim s) (trim s)];
          w1 = w\<lparr>events := events w @ [GenerateCall inputs]\<rparr> in
      case generate e inputs of
        Inl x \<Rightarrow> (w1, Inl x)
      | Inr pdf \<Rightarrow>
          (let b = Blob [pdf] (lit ''application/pdf'') in
           case createObjectURL e b of
             Inl x \<Rightarrow> (w1, Inl x)
           | Inr url \<Rightarrow>
               (w\<lparr>events := events w @
                    [GenerateCall inputs, ObjectURLCreated b url, WindowOpen url]\<rparr>,
                window_open e url)))"
  by (simp add: generateTag_try_def validate_string comp_defs call_generate_def
      call_createObjectURL_def call_window_open_def Let_def split: sum.splits)

lemma generateTag_try_data: "data (fst (generateTag_try e w)) = data w"
proof (cases "name (data w)")
  case (JStr s)
  show ?thesis
  proof (cases "trim s = []")
    case True
    with JStr show ?thesis by (simp add: try_invalid)
  next
    case False
    with JStr show ?thesis
      by (simp add: try_valid Let_def split: sum.splits)
  qed
qed (simp_all add: try_nonstring)

lemma generateTag_try_events: "\<exists>evs. events (fst (generateTag_try e w)) = events w @ evs"
proof (cases "name (data w)")
  case (JStr s)
  show ?thesis
  proof (cases "trim s = []")
    case True
    with JStr show ?thesis by (simp add: try_invalid)
  next
    case False
    with JStr show ?thesis
      by (simp add: try_valid Let_def split: sum.splits)
  qed
qed (simp_all add: try_nonstring)

lemma try_failure_cases:
  assumes "snd (generateTag_try e w) = Inl err"
  shows "emitted (generateTag_try e) w = [] \<or>
         (\<exists>inputs. emitted (generateTag_try e) w = [GenerateCall inputs]) \<or>
         (\<exists>inputs b url. emitted (generateTag_try e) w =
              [GenerateCall inputs, ObjectURLCreated b url, WindowOpen url] \<and>
            window_open e url = Inl err)"
proof (cases "name (data w)")
  case (JStr s)
  show ?thesis
  proof (cases "trim s = []")
    case True
    with JStr show ?thesis by (simp add: try_invalid emitted_def)
  next
    case False
    with JStr assms show ?thesis
      by (auto simp: try_valid Let_def emitted_def split: sum.splits)
  qed
qed (simp_all add: try_nonstring emitted_def)

subsection \<open>markCheckIn, generateTag and notify as a whole\<close>

lemma markCheckIn_resolved:
  "checkInMutation e (userId (data w)) (eventId (data w)) = Inr () \<Longrightarrow>
   markCheckIn e w =
     (w\<lparr>events := events w @ [MutationCall (userId (data w)) (eventId (data w)),
                               ToastSuccess (t e ''checkedInSuccessfully''), Refetch]\<rparr>, Inr ())"
  by (simp add: markCheckIn_def call_checkInMutation_def comp_defs)

lemma markCheckIn_rejected:
  "checkInMutation e (userId (data w)) (eventId (data w)) = Inl err \<Longrightarrow>
   markCheckIn e w =
     (w\<lparr>events := events w @ [MutationCall (userId (data w)) (eventId (data w)),
                               ToastError (t e ''errorCheckingIn''),
                               ToastError (message err)]\<rparr>, Inr ())"
  by (simp add: markCheckIn_def call_checkInMutation_def comp_defs)

lemma generateTag_ok:
  "snd (generateTag_try e w) = Inr () \<Longrightarrow> generateTag e w = generateTag_try e w"
  by (cases "generateTag_try e w") (simp add: generateTag_def catch_c_def)

lemma generateTag_failed:
  "snd (generateTag_try e w) = Inl err \<Longrightarrow>
   generateTag e w =
     ((fst (generateTag_try e w))
        \<lparr>events := events (fst (generateTag_try e w)) @
           [ToastError (t e ''pdfGenerationError'' @ lit '': '' @ errorMessage err)]\<rparr>, Inr ())"
  by (cases "generateTag_try e w")
     (simp add: generateTag_def catch_c_def generateTag_catch_def emit_def)

lemma generateTag_resolves: "snd (generateTag e w) = Inr ()"
proof (cases "snd (generateTag_try e w)")
  case (Inl err)
  then show ?thesis by (simp add: generateTag_failed)
next
  case (Inr u)
  then show ?thesis by (simp add: generateTag_ok)
qed

lemma generateTag_data: "data (fst (generateTag e w)) = data w"
proof (cases "snd (generateTag_try e w)")
  case (Inl err)
  then show ?thesis by (simp add: generateTag_failed generateTag_try_data)
next
  case (Inr u)
  then show ?thesis by (simp add: generateTag_ok generateTag_try_data)
qed

lemma generateTag_events:
  "events (fst (generateTag e w)) = events w @ emitted (generateTag e) w"
proof -
  obtain evs where evs: "events (fst (generateTag_try e w)) = events w @ evs"
    using generateTag_try_events by blast
  show ?thesis
  proof (cases "snd (generateTag_try e w)")
    case (Inl err)
    then show ?thesis by (simp add: generateTag_failed evs emitted_def)
  next
    case (Inr u)
    then show ?thesis by (simp add: generateTag_ok evs emitted_def)
  qed
qed

lemma generateTag_failed_emitted:
  assumes "snd (generateTag_try e w) = Inl err"
  shows "emitted (generateTag e) w =
           emitted (generateTag_try e) w @
           [ToastError (t e ''pdfGenerationError'' @ lit '': '' @ errorMessage err)]"
proof -
  obtain evs where evs: "events (fst (generateTag_try e w)) = events w @ evs"
    using generateTag_try_events by blast
  then have "emitted (generateTag_try e) w = evs" by (rule emitted_append)
  moreover have "events (fst (generateTag e w)) =
      events w @ evs @ [ToastError (t e ''pdfGenerationError'' @ lit '': '' @ errorMessage err)]"
    by (simp add: generateTag_failed [OF assms] evs)
  then have "emitted (generateTag e) w =
      evs @ [ToastError (t e ''pdfGenerationError'' @ lit '': '' @ errorMessage err)]"
    by (rule emitted_append)
  ultimately show ?thesis by simp
qed

lemma generateTag_valid_events:
  assumes "name (data w) = JStr s" and "trim s \<noteq> []"
  shows "\<exists>rest. emitted (generateTag e) w = GenerateCall [schemaInput (trim s) (trim s)] # rest \<and>
                generateCalls rest = []"
proof (cases "snd (generateTag_try e w)")
  case (Inl err)
  from generateTag_failed_emitted [OF Inl] Inl assms show ?thesis
    by (auto simp: try_valid Let_def emitted_def split: sum.splits)
next
  case (Inr u)
  then have "generateTag e w = generateTag_try e w" by (simp add: generateTag_ok)
  with Inr assms show ?thesis
    by (auto simp: try_valid Let_def emitted_def split: sum.splits)
qed

lemma notify_eq:
  "notify e w =
     (let w1 = w\<lparr>events := events w @
                  [ToastPending (js_or (t e ''generatingPdf'') (lit ''Generating PDF...''))]\<rparr>;
          w2 = fst (generateTag e w1)
      in (w2\<lparr>events := events w2 @
               [ToastSuccess (js_or (t e ''pdfGenerated'') (lit ''PDF generated successfully!''))]\<rparr>,
          Inr ()))"
proof -
  let ?w1 = "w\<lparr>events := events w @
                 [ToastPending (js_or (t e ''generatingPdf'') (lit ''Generating PDF...''))]\<rparr>"
  obtain w2 r where g: "generateTag e ?w1 = (w2, r)"
    by (cases "generateTag e ?w1")
  with generateTag_resolves [of e ?w1] have r: "r = Inr ()" by simp
  show ?thesis
    by (simp add: notify_def toast_promise_def seq_def emit_def g r Let_def)
qed

lemma notify_emitted:
  "emitted (notify e) w =
     ToastPending (js_or (t e ''generatingPdf'') (lit ''Generating PDF...'')) #
     emitted (generateTag e)
       (w\<lparr>events := events w @
            [ToastPending (js_or (t e ''generatingPdf'') (lit ''Generating PDF...''))]\<rparr>) @
     [ToastSuccess (js_or (t e ''pdfGenerated'') (lit ''PDF generated successfully!''))]"
proof -
  let ?w1 = "w\<lparr>events := events w @
                 [ToastPending (js_or (t e ''generatingPdf'') (lit ''Generating PDF...''))]\<rparr>"
  have "events (fst (notify e w)) =
      events (fst (generateTag e ?w1)) @
      [ToastSuccess (js_or (t e ''pdfGenerated'') (lit ''PDF generated successfully!''))]"
    by (simp add: notify_eq Let_def)
  also have "events (fst (generateTag e ?w1)) = events ?w1 @ emitted (generateTag e) ?w1"
    by (rule generateTag_events)
  finally have "events (fst (notify e w)) =
      events w @ ToastPending (js_or (t e ''generatingPdf'') (lit ''Generating PDF...'')) #
        emitted (generateTag e) ?w1 @
        [ToastSuccess (js_or (t e ''pdfGenerated'') (lit ''PDF generated successfully!''))]"
    by simp
  then show ?thesis by (rule emitted_append)
qed


section \<open>The claims\<close>

subsection \<open>C1: the notifications of notify\<close>

text \<open>
  C1 says that \<open>notify\<close> shows one pending notification and then exactly one terminal
  notification, a success or an error and never both.  Here the Document Generator rejects
  with the error ``template malformed'' for the checked-in attendee Carol.  The pending
  toast comes first and the generator is called after it; \<open>generateTag\<close> then reports the
  error with a toast of its own and resolves, so the wrapper shows its success message as
  well: two terminal notifications, an error and a success.
\<close>

theorem notify_failure_shows_error_and_success:
  "notify (env_generate_fails (Thrown_Error (Error (lit ''template malformed''))))
          (row (JStr (lit ''Carol'')) checked_in) =
   ((row (JStr (lit ''Carol'')) checked_in)
      \<lparr>events :=
         [ToastPending (lit ''generatingPdf''),
          GenerateCall [schemaInput (lit ''Carol'') (lit ''Carol'')],
          ToastError (lit ''pdfGenerationError: template malformed''),
          ToastSuccess (lit ''pdfGenerated'')]\<rparr>,
    Inr ())"
  by (simp add: eval_defs)

subsection \<open>C2: which affordance is rendered\<close>

text \<open>
  C2 as stated counts an absent marker as ``not checked in''.  The row compares
  \<open>data.checkIn\<close> with \<open>null\<close> by \<open>!==\<close>, and \<open>undefined !== null\<close> holds: for a record
  whose \<open>checkIn\<close> is absent the download affordance is rendered and the check-in
  affordance is not.
\<close>

theorem absent_checkIn_counterexample:
  "checkIn (data (row (JStr (lit ''Bob'')) JUndefined)) = JUndefined \<and>
   \<not> checkIn_affordance (TableRow env_ok (data (row (JStr (lit ''Bob'')) JUndefined))) \<and>
   download_affordance (TableRow env_ok (data (row (JStr (lit ''Bob'')) JUndefined)))"
  by (simp add: eval_defs)

text \<open>
  C2, amended: the check-in affordance is rendered if and only if \<open>checkIn\<close> is \<open>null\<close>,
  the tag-download affordance if and only if \<open>checkIn\<close> is not \<open>null\<close>; every record shows
  exactly one of the two.
\<close>

theorem affordance_by_null_test:
  "(checkIn_affordance (TableRow e d) \<longleftrightarrow> checkIn d = JNull) \<and>
   (download_affordance (TableRow e d) \<longleftrightarrow> checkIn d \<noteq> JNull) \<and>
   (checkIn_affordance (TableRow e d) \<longleftrightarrow> \<not> download_affordance (TableRow e d))"
  by (simp add: TableRow_def checkIn_affordance_def download_affordance_def)

theorem affordance_by_null_test_witness:
  "checkIn_affordance (TableRow env_ok (data (row (JStr (lit ''Bob'')) JNull))) \<and>
   \<not> download_affordance (TableRow env_ok (data (row (JStr (lit ''Bob'')) JNull))) \<and>
   download_affordance (TableRow env_ok (data (row (JStr (lit ''Bob'')) checked_in))) \<and>
   \<not> checkIn_affordance (TableRow env_ok (data (row (JStr (lit ''Bob'')) checked_in)))"
  using affordance_by_null_test [of env_ok "data (row (JStr (lit ''Bob'')) JNull)"]
    affordance_by_null_test [of env_ok "data (row (JStr (lit ''Bob'')) checked_in)"]
  by (simp add: row_def checked_in_def)

subsection \<open>C3: the notifications of markCheckIn\<close>

text \<open>
  C3: \<open>markCheckIn\<close> sends one mutation request with the record's \<open>userId\<close> and \<open>eventId\<close>.
  If the mutation resolves, what follows is exactly one success notification and then
  exactly one call of \<open>refetch\<close>.  If it rejects, what follows is exactly two error
  notifications, the generic one and the one with the error's message, and \<open>refetch\<close> is
  not called.  Nothing else is added to the world's events.
\<close>

theorem markCheckIn_notifications:
  "(checkInMutation e (userId (data w)) (eventId (data w)) = Inr () \<longrightarrow>
      emitted (markCheckIn e) w =
        [MutationCall (userId (data w)) (eventId (data w)),
         ToastSuccess (t e ''checkedInSuccessfully''), Refetch]) \<and>
   (\<forall>err. checkInMutation e (userId (data w)) (eventId (data w)) = Inl err \<longrightarrow>
      emitted (markCheckIn e) w =
        [MutationCall (userId (data w)) (eventId (data w)),
         ToastError (t e ''errorCheckingIn''), ToastError (message err)]) \<and>
   events (fst (markCheckIn e w)) = events w @ emitted (markCheckIn e) w"
proof (cases "checkInMutation e (userId (data w)) (eventId (data w))")
  case (Inl err)
  then show ?thesis by (simp add: markCheckIn_rejected emitted_def)
next
  case (Inr u)
  then show ?thesis by (simp add: markCheckIn_resolved emitted_def)
qed

theorem markCheckIn_notifications_witness:
  "emitted (markCheckIn env_ok) (row (JStr (lit ''Bob'')) JNull) =
     [MutationCall (lit ''u1'') (lit ''e1''), ToastSuccess (lit ''checkedInSuccessfully''),
      Refetch] \<and>
   emitted (markCheckIn (env_mutation_fails (Error (lit ''Network error''))))
       (row (JStr (lit ''Bob'')) JNull) =
     [MutationCall (lit ''u1'') (lit ''e1''), ToastError (lit ''errorCheckingIn''),
      ToastError (lit ''Network error'')]"
  using markCheckIn_notifications [of env_ok "row (JStr (lit ''Bob'')) JNull"]
    markCheckIn_notifications [of "env_mutation_fails (Error (lit ''Network error''))"
      "row (JStr (lit ''Bob'')) JNull"]
  by (simp add: env_ok_def env_mutation_fails_def row_def)

subsection \<open>C4: an empty or blank name\<close>

text \<open>
  C4: when the record's name is the empty string or consists of whitespace only,
  \<open>generateTag\<close> fails with the validation error in the \<open>try\<close> block before anything has
  happened: the world is unchanged at the throw, the Document Generator is never called,
  and no handle is created or opened.  All that the invocation does is report the error.
\<close>

theorem blank_name_fails_validation:
  assumes "name (data w) = JStr s" and "s = [] \<or> (\<forall>c\<in>set s. isWhiteSpace c)"
  shows "generateTag_try e w =
           (w, Inl (Thrown_Error (Error (js_or (t e ''invalidName'')
                                            (lit ''Invalid or empty name provided''))))) \<and>
         generateTag e w =
           (w\<lparr>events := events w @
                [ToastError (t e ''pdfGenerationError'' @ lit '': '' @
                   js_or (t e ''invalidName'') (lit ''Invalid or empty name provided''))]\<rparr>,
            Inr ()) \<and>
         generateCalls (emitted (generateTag e) w) = [] \<and>
         (\<forall>ev\<in>set (emitted (generateTag e) w). \<not> is_delivery ev)"
proof -
  from assms(2) have tr: "trim s = []" by (auto simp: trim_empty_iff)
  have 1: "generateTag_try e w = (w, Inl (invalidName e))"
    using assms(1) tr by (rule try_invalid)
  then have "snd (generateTag_try e w) = Inl (invalidName e)" by simp
  from generateTag_failed [OF this]
  have 2: "generateTag e w =
           (w\<lparr>events := events w @
                [ToastError (t e ''pdfGenerationError'' @ lit '': '' @
                   js_or (t e ''invalidName'') (lit ''Invalid or empty name provided''))]\<rparr>,
            Inr ())"
    by (simp add: 1 invalidName_def errorMessage_def)
  have 3: "generateCalls (emitted (generateTag e) w) = []"
    by (simp add: 2 emitted_def)
  have 4: "\<forall>ev\<in>set (emitted (generateTag e) w). \<not> is_delivery ev"
    by (simp add: 2 emitted_def)
  from 1 2 3 4 show ?thesis by (simp add: invalidName_def)
qed

theorem blank_name_fails_validation_witness:
  "generateTag env_ok (row (JStr (lit ''   '')) checked_in) =
     ((row (JStr (lit ''   '')) checked_in)
        \<lparr>events := [ToastError (lit ''pdfGenerationError: invalidName'')]\<rparr>, Inr ()) \<and>
   generateTag env_ok (row (JStr []) checked_in) =
     ((row (JStr []) checked_in)
        \<lparr>events := [ToastError (lit ''pdfGenerationError: invalidName'')]\<rparr>, Inr ())"
proof -
  have a: "name (data (row (JStr (lit ''   '')) checked_in)) = JStr (lit ''   '')"
    by (simp add: row_def)
  have b: "lit ''   '' = [] \<or> (\<forall>c\<in>set (lit ''   ''). isWhiteSpace c)"
    by (simp add: lit_def isWhiteSpace_def)
  have c: "name (data (row (JStr []) checked_in)) = JStr []"
    by (simp add: row_def)
  have d: "([]::jstring) = [] \<or> (\<forall>c\<in>set ([]::jstring). isWhiteSpace c)" by simp
  have h: "t env_ok ''pdfGenerationError'' @ lit '': '' @
      js_or (t env_ok ''invalidName'') (lit ''Invalid or empty name provided'') =
      lit ''pdfGenerationError: invalidName''"
    by (simp add: env_ok_def lit_def js_or_def)
  from blank_name_fails_validation [OF a b, of env_ok]
    blank_name_fails_validation [OF c d, of env_ok]
  show ?thesis by (simp add: h row_def)
qed

subsection \<open>C5: the field input built from a valid name\<close>

text \<open>
  C5: when the record's name is a string that is not empty after trimming, \<open>generateTag\<close>
  calls the Document Generator exactly once, with exactly one field input: a text field
  whose content (and name) is the trimmed name, at position (10, 20), 200 wide and 50
  high, centred, with font size 12 and dynamic font size switched on.  The call is the
  first thing the invocation does.
\<close>

theorem valid_name_builds_one_trimmed_field:
  assumes "name (data w) = JStr s" and "trim s \<noteq> []"
  shows "generateCalls (emitted (generateTag e) w) =
           [[\<lparr> field_name = trim s, field_type = Text, content = trim s, position = (10, 20),
               width = 200, height = 50, alignment = Some Center, fontSize = Some 12,
               dynamicFontSize = Some True \<rparr>]] \<and>
         hd (emitted (generateTag e) w) =
           GenerateCall
            [\<lparr> field_name = trim s, field_type = Text, content = trim s, position = (10, 20),
               width = 200, height = 50, alignment = Some Center, fontSize = Some 12,
               dynamicFontSize = Some True \<rparr>] \<and>
         events (fst (generateTag e w)) = events w @ emitted (generateTag e) w"
proof -
  from generateTag_valid_events [OF assms, of e] obtain rest where
    "emitted (generateTag e) w = GenerateCall [schemaInput (trim s) (trim s)] # rest"
    and "generateCalls rest = []" by blast
  then show ?thesis by (simp add: schemaInput_def generateTag_events)
qed

theorem valid_name_builds_one_trimmed_field_witness:
  "trim (lit ''  Alice  '') = lit ''Alice'' \<and>
   generateCalls (emitted (generateTag env_ok) (row (JStr (lit ''  Alice  '')) checked_in)) =
     [[\<lparr> field_name = lit ''Alice'', field_type = Text, content = lit ''Alice'',
         position = (10, 20), width = 200, height = 50, alignment = Some Center,
         fontSize = Some 12, dynamicFontSize = Some True \<rparr>]]"
proof -
  have tr: "trim (lit ''  Alice  '') = lit ''Alice''"
    by (simp add: trim_def isWhiteSpace_def lit_def)
  have n: "name (data (row (JStr (lit ''  Alice  '')) checked_in)) = JStr (lit ''  Alice  '')"
    by (simp add: row_def)
  have ne: "trim (lit ''  Alice  '') \<noteq> []"
    by (simp add: trim_def isWhiteSpace_def lit_def)
  from valid_name_builds_one_trimmed_field [OF n ne, of env_ok] tr show ?thesis by simp
qed

subsection \<open>C6: what a failed generateTag reports\<close>

text \<open>
  C6 as stated fails in two ways.  When the Document Generator rejects with a value that
  is not an \<open>Error\<close> (here the string ``template malformed''), the notification does not
  carry the text of what was thrown: it says ``Unknown error''.  When \<open>window.open\<close> throws
  (here the error ``popup blocked''), the invocation has failed, but the handle had been
  created and the open step had run.
\<close>

theorem failure_report_counterexample:
  "snd (generateTag_try (env_generate_fails (Thrown_Other (JStr (lit ''template malformed''))))
         (row (JStr (lit ''Carol'')) checked_in)) =
     Inl (Thrown_Other (JStr (lit ''template malformed''))) \<and>
   emitted (generateTag (env_generate_fails (Thrown_Other (JStr (lit ''template malformed'')))))
         (row (JStr (lit ''Carol'')) checked_in) =
     [GenerateCall [schemaInput (lit ''Carol'') (lit ''Carol'')],
      ToastError (lit ''pdfGenerationError: Unknown error'')] \<and>
   snd (generateTag_try (env_window_open_fails (Thrown_Error (Error (lit ''popup blocked''))))
         (row (JStr (lit ''Carol'')) checked_in)) =
     Inl (Thrown_Error (Error (lit ''popup blocked''))) \<and>
   emitted (generateTag (env_window_open_fails (Thrown_Error (Error (lit ''popup blocked'')))))
         (row (JStr (lit ''Carol'')) checked_in) =
     [GenerateCall [schemaInput (lit ''Carol'') (lit ''Carol'')],
      ObjectURLCreated (Blob [[0x25, 0x50, 0x44, 0x46]] (lit ''application/pdf''))
        (lit ''blob:tag''),
      WindowOpen (lit ''blob:tag''),
      ToastError (lit ''pdfGenerationError: popup blocked'')]"
  by (simp add: eval_defs)

text \<open>
  C6, amended: when the \<open>try\<close> block of \<open>generateTag\<close> fails with a thrown value, the
  invocation adds exactly one error notification after what the \<open>try\<close> block did; its text
  is \<open>t('pdfGenerationError')\<close>, then \<open>': '\<close>, then the message of the thrown \<open>Error\<close>, or
  ``Unknown error'' when the thrown value is not an \<open>Error\<close>.  No handle is created and
  \<open>window.open\<close> is not called, unless the thrown value is the one \<open>window.open\<close> itself
  threw, after the generator call and the creation of the handle.
\<close>

theorem failure_report:
  assumes "snd (generateTag_try e w) = Inl err"
  shows "emitted (generateTag e) w =
           emitted (generateTag_try e) w @
           [ToastError (t e ''pdfGenerationError'' @ lit '': '' @
              (case err of Thrown_Error er \<Rightarrow> message er
                         | Thrown_Other v \<Rightarrow> lit ''Unknown error''))] \<and>
         ((\<forall>ev\<in>set (emitted (generateTag e) w). \<not> is_delivery ev) \<or>
          (\<exists>inputs b url. window_open e url = Inl err \<and>
             emitted (generateTag_try e) w =
               [GenerateCall inputs, ObjectURLCreated b url, WindowOpen url]))"
proof -
  have 1: "emitted (generateTag e) w =
           emitted (generateTag_try e) w @
           [ToastError (t e ''pdfGenerationError'' @ lit '': '' @
              (case err of Thrown_Error er \<Rightarrow> message er
                         | Thrown_Other v \<Rightarrow> lit ''Unknown error''))]"
    using generateTag_failed_emitted [OF assms] by (simp add: errorMessage_def)
  from try_failure_cases [OF assms]
  have "(\<forall>ev\<in>set (emitted (generateTag e) w). \<not> is_delivery ev) \<or>
          (\<exists>inputs b url. window_open e url = Inl err \<and>
             emitted (generateTag_try e) w =
               [GenerateCall inputs, ObjectURLCreated b url, WindowOpen url])"
    unfolding 1 by auto
  with 1 show ?thesis by blast
qed

theorem failure_report_witness:
  "emitted (generateTag (env_generate_fails (Thrown_Error (Error (lit ''template malformed'')))))
         (row (JStr (lit ''Carol'')) checked_in) =
     [GenerateCall [schemaInput (lit ''Carol'') (lit ''Carol'')],
      ToastError (lit ''pdfGenerationError: template malformed'')]"
proof -
  let ?e = "env_generate_fails (Thrown_Error (Error (lit ''template malformed'')))"
  let ?w = "row (JStr (lit ''Carol'')) checked_in"
  have f: "snd (generateTag_try ?e ?w) = Inl (Thrown_Error (Error (lit ''template malformed'')))"
    by (simp add: eval_defs)
  have g: "emitted (generateTag_try ?e) ?w =
      [GenerateCall [schemaInput (lit ''Carol'') (lit ''Carol'')]]"
    by (simp add: eval_defs)
  have h: "t ?e ''pdfGenerationError'' @ lit '': '' @ lit ''template malformed'' =
      lit ''pdfGenerationError: template malformed''"
    by (simp add: env_ok_def env_generate_fails_def lit_def)
  from failure_report [OF f] show ?thesis by (simp add: g h)
qed

subsection \<open>C7: nothing escapes the two operations\<close>

text \<open>
  C7: whatever the collaborators do, the promise chain of \<open>markCheckIn\<close> and the promise
  of \<open>generateTag\<close> end resolved, never rejected.  A rejected mutation has been turned into
  an error notification with the error's message, a failure in the \<open>try\<close> block of
  \<open>generateTag\<close> into an error notification with the message of what was thrown, and the
  record is as it was, so the same action can be tried again.
\<close>

theorem no_uncaught_error:
  "snd (markCheckIn e w) = Inr () \<and>
   snd (generateTag e w) = Inr () \<and>
   (\<forall>err. checkInMutation e (userId (data w)) (eventId (data w)) = Inl err \<longrightarrow>
      ToastError (message err) \<in> set (emitted (markCheckIn e) w)) \<and>
   (\<forall>err. snd (generateTag_try e w) = Inl err \<longrightarrow>
      ToastError (t e ''pdfGenerationError'' @ lit '': '' @ errorMessage err)
        \<in> set (emitted (generateTag e) w)) \<and>
   data (fst (markCheckIn e w)) = data w \<and>
   data (fst (generateTag e w)) = data w"
proof -
  have m: "snd (markCheckIn e w) = Inr () \<and> data (fst (markCheckIn e w)) = data w \<and>
     (\<forall>err. checkInMutation e (userId (data w)) (eventId (data w)) = Inl err \<longrightarrow>
        ToastError (message err) \<in> set (emitted (markCheckIn e) w))"
    by (cases "checkInMutation e (userId (data w)) (eventId (data w))")
       (simp_all add: markCheckIn_rejected markCheckIn_resolved emitted_def)
  have g: "\<forall>err. snd (generateTag_try e w) = Inl err \<longrightarrow>
      ToastError (t e ''pdfGenerationError'' @ lit '': '' @ errorMessage err)
        \<in> set (emitted (generateTag e) w)"
    by (simp add: generateTag_failed_emitted)
  from m g show ?thesis by (simp add: generateTag_resolves generateTag_data)
qed

theorem no_uncaught_error_witness:
  "snd (markCheckIn (env_mutation_fails (Error (lit ''Network error'')))
         (row (JStr (lit ''Bob'')) JNull)) = Inr () \<and>
   ToastError (lit ''Network error'') \<in>
     set (emitted (markCheckIn (env_mutation_fails (Error (lit ''Network error''))))
           (row (JStr (lit ''Bob'')) JNull)) \<and>
   snd (generateTag env_ok (row (JStr (lit ''   '')) checked_in)) = Inr () \<and>
   ToastError (lit ''pdfGenerationError: invalidName'') \<in>
     set (emitted (generateTag env_ok) (row (JStr (lit ''   '')) checked_in))"
proof -
  let ?e1 = "env_mutation_fails (Error (lit ''Network error''))"
  let ?w1 = "row (JStr (lit ''Bob'')) JNull"
  let ?w2 = "row (JStr (lit ''   '')) checked_in"
  have a: "checkInMutation ?e1 (userId (data ?w1)) (eventId (data ?w1)) =
      Inl (Error (lit ''Network error''))"
    by (simp add: env_ok_def env_mutation_fails_def)
  have b: "snd (generateTag_try env_ok ?w2) = Inl (invalidName env_ok)"
    by (simp add: eval_defs)
  have c: "t env_ok ''pdfGenerationError'' @ lit '': '' @ errorMessage (invalidName env_ok) =
      lit ''pdfGenerationError: invalidName''"
    by (simp add: env_ok_def lit_def errorMessage_def invalidName_def js_or_def)
  from no_uncaught_error [of ?e1 ?w1] no_uncaught_error [of env_ok ?w2] a b c
  show ?thesis by (metis js_error.sel)
qed

subsection \<open>C8: the field inputs depend on the record alone\<close>

text \<open>
  C8: for a record with a valid name, the inputs handed to the Document Generator are the
  same whatever the collaborators do and whatever has happened before: two worlds that
  hold the same record give the same inputs, also under different collaborators, and a
  second invocation after a first one gives the inputs of the first.  Each invocation
  makes exactly one generator call.
\<close>

theorem field_inputs_deterministic:
  assumes "name (data w1) = JStr s" and "trim s \<noteq> []" and "data w2 = data w1"
  shows "generateCalls (emitted (generateTag e2) w2) =
           generateCalls (emitted (generateTag e1) w1) \<and>
         generateCalls (emitted (generateTag e2) (fst (generateTag e1 w1))) =
           generateCalls (emitted (generateTag e1) w1) \<and>
         length (generateCalls (emitted (generateTag e1) w1)) = 1"
proof -
  have a: "generateCalls (emitted (generateTag e) w) = [[schemaInput (trim s) (trim s)]]"
    if "data w = data w1" for e and w :: world
  proof -
    from that assms(1) have "name (data w) = JStr s" by simp
    from generateTag_valid_events [OF this assms(2), of e] show ?thesis by auto
  qed
  have "data (fst (generateTag e1 w1)) = data w1" by (rule generateTag_data)
  then show ?thesis
    using a [of w1 e1] a [of w2 e2] a [of "fst (generateTag e1 w1)" e2] assms(3)
    by simp
qed

theorem field_inputs_deterministic_witness:
  "generateCalls (emitted (generateTag (env_generate_fails (Thrown_Other JNull)))
       (fst (generateTag env_ok (row (JStr (lit ''Carol'')) checked_in)))) =
   generateCalls (emitted (generateTag env_ok) (row (JStr (lit ''Carol'')) checked_in)) \<and>
   length (generateCalls (emitted (generateTag env_ok)
       (row (JStr (lit ''Carol'')) checked_in))) = 1"
proof -
  let ?w = "row (JStr (lit ''Carol'')) checked_in"
  have a: "name (data ?w) = JStr (lit ''Carol'')" by (simp add: row_def)
  have b: "trim (lit ''Carol'') \<noteq> []" by (simp add: trim_def isWhiteSpace_def lit_def)
  from field_inputs_deterministic [OF a b refl, of "env_generate_fails (Thrown_Other JNull)" env_ok]
  show ?thesis by simp
qed

subsection \<open>C9: the record is never written\<close>

text \<open>
  C9: after \<open>markCheckIn\<close>, after \<open>generateTag\<close> and after \<open>notify\<close>, whatever the
  collaborators did, the record in the world is the record the operation started with:
  \<open>userId\<close>, \<open>eventId\<close>, \<open>name\<close> and \<open>checkIn\<close> are unchanged.
\<close>

theorem record_never_mutated:
  "data (fst (markCheckIn e w)) = data w \<and>
   data (fst (generateTag e w)) = data w \<and>
   data (fst (notify e w)) = data w"
proof -
  have "data (fst (markCheckIn e w)) = data w"
    by (cases "checkInMutation e (userId (data w)) (eventId (data w))")
       (simp_all add: markCheckIn_rejected markCheckIn_resolved)
  moreover have "data (fst (notify e w)) = data w"
    by (simp add: notify_eq Let_def generateTag_data)
  ultimately show ?thesis by (simp add: generateTag_data)
qed

theorem record_never_mutated_witness:
  "checkIn (data (fst (markCheckIn env_ok (row (JStr (lit ''Bob'')) JNull)))) = JNull \<and>
   name (data (fst (notify env_ok (row (JStr (lit ''Bob'')) checked_in)))) = JStr (lit ''Bob'')"
  using record_never_mutated [of env_ok "row (JStr (lit ''Bob'')) JNull"]
    record_never_mutated [of env_ok "row (JStr (lit ''Bob'')) checked_in"]
  by (simp add: row_def)

subsection \<open>C10: generateTag always resolves\<close>

text \<open>
  C10: the promise of \<open>generateTag\<close> resolves for every record and every behaviour of the
  collaborators.  A failure in its \<open>try\<close> block, the validation failure included, is
  reported by one error notification that \<open>generateTag\<close> emits itself, with ``Unknown
  error'' for a thrown value that is not an \<open>Error\<close>.  The wrapper in \<open>notify\<close> therefore
  never sees a rejection: \<open>notify\<close> resolves too, and what it adds is the pending message,
  what \<open>generateTag\<close> emitted, and the success message.
\<close>

theorem generateTag_always_resolves:
  "snd (generateTag e w) = Inr () \<and>
   (\<forall>err. snd (generateTag_try e w) = Inl err \<longrightarrow>
      emitted (generateTag e) w =
        emitted (generateTag_try e) w @
        [ToastError (t e ''pdfGenerationError'' @ lit '': '' @
           (case err of Thrown_Error er \<Rightarrow> message er
                      | Thrown_Other v \<Rightarrow> lit ''Unknown error''))]) \<and>
   snd (notify e w) = Inr () \<and>
   emitted (notify e) w =
     ToastPending (js_or (t e ''generatingPdf'') (lit ''Generating PDF...'')) #
     emitted (generateTag e)
       (w\<lparr>events := events w @
            [ToastPending (js_or (t e ''generatingPdf'') (lit ''Generating PDF...''))]\<rparr>) @
     [ToastSuccess (js_or (t e ''pdfGenerated'') (lit ''PDF generated successfully!''))]"
proof -
  have "\<forall>err. snd (generateTag_try e w) = Inl err \<longrightarrow>
      emitted (generateTag e) w =
        emitted (generateTag_try e) w @
        [ToastError (t e ''pdfGenerationError'' @ lit '': '' @
           (case err of Thrown_Error er \<Rightarrow> message er
                      | Thrown_Other v \<Rightarrow> lit ''Unknown error''))]"
    using generateTag_failed_emitted [of e w] by (simp add: errorMessage_def)
  moreover have "snd (notify e w) = Inr ()" by (simp add: notify_eq Let_def)
  ultimately show ?thesis using notify_emitted [of e w] by (simp add: generateTag_resolves)
qed

theorem generateTag_always_resolves_witness:
  "snd (generateTag (env_generate_fails (Thrown_Other (JNum 42)))
         (row (JStr (lit ''Carol'')) checked_in)) = Inr () \<and>
   emitted (generateTag (env_generate_fails (Thrown_Other (JNum 42))))
         (row (JStr (lit ''Carol'')) checked_in) =
     [GenerateCall [schemaInput (lit ''Carol'') (lit ''Carol'')],
      ToastError (lit ''pdfGenerationError: Unknown error'')]"
proof -
  let ?e = "env_generate_fails (Thrown_Other (JNum 42))"
  let ?w = "row (JStr (lit ''Carol'')) checked_in"
  have f: "snd (generateTag_try ?e ?w) = Inl (Thrown_Other (JNum 42))"
    by (simp add: eval_defs)
  have g: "emitted (generateTag_try ?e) ?w =
      [GenerateCall [schemaInput (lit ''Carol'') (lit ''Carol'')]]"
    by (simp add: eval_defs)
  have h: "t ?e ''pdfGenerationError'' @ lit '': '' @ lit ''Unknown error'' =
      lit ''pdfGenerationError: Unknown error''"
    by (simp add: env_ok_def env_generate_fails_def lit_def)
  from generateTag_always_resolves [of ?e ?w] f show ?thesis by (simp add: g h)
qed

end
